theory Spec2Isabelle
  imports Complex_Main
begin

section \<open>Data model of the ADMM fixed solver (demo/admmfixedsolver.cc)\<close>

text \<open>
  The solver works on \<^verbatim>\<open>double\<close> values through the Eigen library. Scalars are
  embedded as \<^typ>\<open>real\<close>: the arithmetic of the model is exact, without rounding,
  NaN or overflow. The one infinite value the code produces on purpose
  (\<^verbatim>\<open>std::numeric_limits<double>::infinity()\<close> as an energy) is a constructor of its
  own. An Eigen index out of range is undefined behaviour (an assertion in debug
  builds); the well-formedness predicates below exclude it, and the theorems whose
  statement depends on the rows that are read assume them.

  Member names of the class end in an underscore in the source (\<^verbatim>\<open>fixed_\<close>,
  \<^verbatim>\<open>S_\<close>, ...); such names are not legal here, so the record fields drop it.
\<close>

subsection \<open>Eigen::Vector3d and Eigen::Matrix3d\<close>

datatype vec3 = Vec3 (vx: real) (vy: real) (vz: real)

text \<open>A 3 by 3 matrix is stored by its three rows.\<close>

datatype mat3 = Mat3 (row0: vec3) (row1: vec3) (row2: vec3)

instantiation vec3 :: ab_group_add
begin

definition zero_vec3 :: vec3 where
  "zero_vec3 = Vec3 0 0 0"

definition plus_vec3 :: "vec3 \<Rightarrow> vec3 \<Rightarrow> vec3" where
  "plus_vec3 a b = Vec3 (vx a + vx b) (vy a + vy b) (vz a + vz b)"

definition minus_vec3 :: "vec3 \<Rightarrow> vec3 \<Rightarrow> vec3" where
  "minus_vec3 a b = Vec3 (vx a - vx b) (vy a - vy b) (vz a - vz b)"

definition uminus_vec3 :: "vec3 \<Rightarrow> vec3" where
  "uminus_vec3 a = Vec3 (- vx a) (- vy a) (- vz a)"

instance
  by standard
    (simp_all add: zero_vec3_def plus_vec3_def minus_vec3_def uminus_vec3_def vec3.expand)

end

instantiation mat3 :: ab_group_add
begin

definition zero_mat3 :: mat3 where
  "zero_mat3 = Mat3 0 0 0"

definition plus_mat3 :: "mat3 \<Rightarrow> mat3 \<Rightarrow> mat3" where
  "plus_mat3 a b = Mat3 (row0 a + row0 b) (row1 a + row1 b) (row2 a + row2 b)"

definition minus_mat3 :: "mat3 \<Rightarrow> mat3 \<Rightarrow> mat3" where
  "minus_mat3 a b = Mat3 (row0 a - row0 b) (row1 a - row1 b) (row2 a - row2 b)"

definition uminus_mat3 :: "mat3 \<Rightarrow> mat3" where
  "uminus_mat3 a = Mat3 (- row0 a) (- row1 a) (- row2 a)"

instance
  by standard
    (simp_all add: zero_mat3_def plus_mat3_def minus_mat3_def uminus_mat3_def mat3.expand)

end

text \<open>\<^verbatim>\<open>v(i)\<close>: the coefficient of a vector, for \<open>i\<close> in 0, 1, 2.\<close>

definition vnth :: "vec3 \<Rightarrow> nat \<Rightarrow> real" where
  "vnth v i = (if i = 0 then vx v else if i = 1 then vy v else vz v)"

definition vscale :: "real \<Rightarrow> vec3 \<Rightarrow> vec3" where
  "vscale c v = Vec3 (c * vx v) (c * vy v) (c * vz v)"

definition dot :: "vec3 \<Rightarrow> vec3 \<Rightarrow> real" where
  "dot a b = vx a * vx b + vy a * vy b + vz a * vz b"

definition cross :: "vec3 \<Rightarrow> vec3 \<Rightarrow> vec3" where
  "cross a b = Vec3 (vy a * vz b - vz a * vy b)
                    (vz a * vx b - vx a * vz b)
                    (vx a * vy b - vy a * vx b)"

text \<open>\<^verbatim>\<open>squaredNorm()\<close> and \<^verbatim>\<open>norm()\<close> of a vector.\<close>

definition squaredNorm :: "vec3 \<Rightarrow> real" where
  "squaredNorm v = dot v v"

definition norm3 :: "vec3 \<Rightarrow> real" where
  "norm3 v = sqrt (squaredNorm v)"

definition Identity :: mat3 where
  "Identity = Mat3 (Vec3 1 0 0) (Vec3 0 1 0) (Vec3 0 0 1)"

definition Zero :: mat3 where
  "Zero = Mat3 (Vec3 0 0 0) (Vec3 0 0 0) (Vec3 0 0 0)"

definition mrow :: "mat3 \<Rightarrow> nat \<Rightarrow> vec3" where
  "mrow m i = (if i = 0 then row0 m else if i = 1 then row1 m else row2 m)"

text \<open>\<^verbatim>\<open>m(i, j)\<close>.\<close>

definition mnth :: "mat3 \<Rightarrow> nat \<Rightarrow> nat \<Rightarrow> real" where
  "mnth m i j = vnth (mrow m i) j"

definition mcol :: "mat3 \<Rightarrow> nat \<Rightarrow> vec3" where
  "mcol m j = Vec3 (vnth (row0 m) j) (vnth (row1 m) j) (vnth (row2 m) j)"

definition transpose3 :: "mat3 \<Rightarrow> mat3" where
  "transpose3 m = Mat3 (mcol m 0) (mcol m 1) (mcol m 2)"

definition mscale :: "real \<Rightarrow> mat3 \<Rightarrow> mat3" where
  "mscale c m = Mat3 (vscale c (row0 m)) (vscale c (row1 m)) (vscale c (row2 m))"

text \<open>Matrix times column vector, and matrix times matrix.\<close>

definition mulvec :: "mat3 \<Rightarrow> vec3 \<Rightarrow> vec3" where
  "mulvec m v = Vec3 (dot (row0 m) v) (dot (row1 m) v) (dot (row2 m) v)"

definition mmul :: "mat3 \<Rightarrow> mat3 \<Rightarrow> mat3" where
  "mmul a b = Mat3
     (Vec3 (dot (row0 a) (mcol b 0)) (dot (row0 a) (mcol b 1)) (dot (row0 a) (mcol b 2)))
     (Vec3 (dot (row1 a) (mcol b 0)) (dot (row1 a) (mcol b 1)) (dot (row1 a) (mcol b 2)))
     (Vec3 (dot (row2 a) (mcol b 0)) (dot (row2 a) (mcol b 1)) (dot (row2 a) (mcol b 2)))"

text \<open>The outer product \<^verbatim>\<open>v * b.transpose()\<close> of two column vectors.\<close>

definition outer :: "vec3 \<Rightarrow> vec3 \<Rightarrow> mat3" where
  "outer v b = Mat3 (vscale (vx v) b) (vscale (vy v) b) (vscale (vz v) b)"

definition determinant :: "mat3 \<Rightarrow> real" where
  "determinant m = dot (row0 m) (cross (row1 m) (row2 m))"

text \<open>\<^verbatim>\<open>squaredNorm()\<close> of a matrix: the squared Frobenius norm.\<close>

definition msquaredNorm :: "mat3 \<Rightarrow> real" where
  "msquaredNorm m = squaredNorm (row0 m) + squaredNorm (row1 m) + squaredNorm (row2 m)"

subsection \<open>Sparse matrices\<close>

text \<open>
  An \<^verbatim>\<open>Eigen::SparseMatrix<double>\<close> is the finite map of its stored entries.
  \<^verbatim>\<open>coeff(i, j)\<close> reads an entry and gives 0 where nothing is stored;
  \<^verbatim>\<open>coeffRef(i, j)\<close> inserts a zero entry where nothing is stored and returns a
  reference to it, so \<^verbatim>\<open>coeffRef(i, j) += x\<close> always leaves \<open>(i, j)\<close> stored.
\<close>

type_synonym sparse = "nat \<times> nat \<rightharpoonup> real"

definition coeff :: "sparse \<Rightarrow> nat \<Rightarrow> nat \<Rightarrow> real" where
  "coeff m i j = (case m (i, j) of None \<Rightarrow> 0 | Some x \<Rightarrow> x)"

text \<open>\<^verbatim>\<open>m.coeffRef(i, j) += x\<close> and \<^verbatim>\<open>m.coeffRef(i, j) -= x\<close>.\<close>

definition add_to :: "sparse \<Rightarrow> nat \<Rightarrow> nat \<Rightarrow> real \<Rightarrow> sparse" where
  "add_to m i j x = m((i, j) \<mapsto> coeff m i j + x)"

definition sub_from :: "sparse \<Rightarrow> nat \<Rightarrow> nat \<Rightarrow> real \<Rightarrow> sparse" where
  "sub_from m i j x = m((i, j) \<mapsto> coeff m i j - x)"

subsection \<open>The solver object\<close>

datatype VertexType = Free | Fixed

text \<open>
  \<^verbatim>\<open>vertex_info_[v]\<close>: the type of vertex \<open>v\<close> and its position in \<^verbatim>\<open>free_\<close>
  or in \<^verbatim>\<open>fixed_\<close>.
\<close>

record VertexInfo =
  type :: VertexType
  pos :: nat

text \<open>
  The members of \<^verbatim>\<open>AdmmFixedSolver\<close> and of its base class \<^verbatim>\<open>Solver\<close> that the
  source file reads or writes. An N by 3 \<^verbatim>\<open>MatrixXd\<close> is the list of its rows; the
  F by 3 \<^verbatim>\<open>MatrixXi faces_\<close> is a list of index triples. The member
  \<^verbatim>\<open>solver_\<close> is the factorisation object; the model keeps the matrix it was last
  computed from.
\<close>

record solver_state =
  vertices :: "vec3 list"
  faces :: "(nat \<times> nat \<times> nat) list"
  fixed :: "nat list"
  free :: "nat list"
  vertex_info :: "VertexInfo list"
  max_iteration :: int
  rho :: real
  weight :: sparse
  M :: sparse
  solver :: "sparse option"
  fixed_vertices :: "vec3 list"
  vertices_updated :: "vec3 list"
  rotations :: "mat3 list"
  S :: "mat3 list"
  T :: "mat3 list"

text \<open>Every \<^verbatim>\<open>exit(EXIT_FAILURE)\<close> of the file, by the message printed before it.\<close>

datatype error =
    CholeskyFailed
  | WrongDimension
  | SolveFailed
  | SolutionDimensionMismatch
  | LinearSolverWrong

text \<open>
  A call either runs to its end (\<open>Inr\<close>, with the new state) or terminates the process
  (\<open>Inl\<close>, with the error and the state of the object at the moment of the exit).
\<close>

type_synonym result = "(error \<times> solver_state) + solver_state"

subsection \<open>SolvePreprocess\<close>

text \<open>
  The loop \<^verbatim>\<open>for i < fixed_num: vertices_updated_.row(fixed_(i)) = fixed_vertices_.row(i)\<close>,
  as a recursion on the indices still to visit. SolveOneIteration writes the solution
  back with a loop of the same shape,
  \<^verbatim>\<open>for i < free_num: vertices_updated_.row(free_(i)) = solution.row(i)\<close>.
\<close>

fun assign_rows :: "nat list \<Rightarrow> vec3 list \<Rightarrow> nat list \<Rightarrow> vec3 list \<Rightarrow> vec3 list" where
  "assign_rows fx fv [] vu = vu"
| "assign_rows fx fv (i # is) vu = assign_rows fx fv is (vu[fx ! i := fv ! i])"

definition SolvePreprocess :: "solver_state \<Rightarrow> vec3 list \<Rightarrow> result" where
  "SolvePreprocess s fixed_vertices' =
    (let s1 = s\<lparr>fixed_vertices := fixed_vertices'\<rparr>;
         fixed_num = length (fixed s1)
     in if fixed_num \<noteq> length (fixed_vertices s1) then Inl (WrongDimension, s1)
        else
          let s2 = s1\<lparr>vertices_updated := vertices s1\<rparr>;
              s3 = s2\<lparr>vertices_updated :=
                        assign_rows (fixed s2) (fixed_vertices s2) [0..<fixed_num]
                          (vertices_updated s2)\<rparr>;
              vertex_num = length (vertices s3);
              s4 = s3\<lparr>rotations := replicate vertex_num Identity\<rparr>;
              s5 = s4\<lparr>S := replicate vertex_num Identity\<rparr>;
              s6 = s5\<lparr>T := replicate vertex_num Zero\<rparr>
          in Inr s6)"

text \<open>
  The fixed indices are well formed when they are distinct vertices of the mesh.
\<close>

definition wf_fixed :: "solver_state \<Rightarrow> bool" where
  "wf_fixed s \<longleftrightarrow> distinct (fixed s) \<and> list_all (\<lambda>p. p < length (vertices s)) (fixed s)"

subsection \<open>ComputeCotangent and the weight matrix of Precompute\<close>

text \<open>\<^verbatim>\<open>faces_(f, k)\<close> for \<open>k\<close> in 0, 1, 2.\<close>

definition face_at :: "nat \<times> nat \<times> nat \<Rightarrow> nat \<Rightarrow> nat" where
  "face_at face k = (case face of (a, b, c) \<Rightarrow> if k = 0 then a else if k = 1 then b else c)"

text \<open>
  The cotangents of the three angles of a face. A face of zero area makes the source
  divide by zero (the doubles become infinite or NaN); the model has no such values, so
  its result means something for faces of non-zero area only.
\<close>

definition ComputeCotangent :: "solver_state \<Rightarrow> nat \<Rightarrow> vec3" where
  "ComputeCotangent s face_id =
    (let A = vertices s ! face_at (faces s ! face_id) 0;
         B = vertices s ! face_at (faces s ! face_id) 1;
         C = vertices s ! face_at (faces s ! face_id) 2;
         a_squared = squaredNorm (B - C);
         b_squared = squaredNorm (C - A);
         c_squared = squaredNorm (A - B);
         area = norm3 (cross (B - A) (C - A)) / 2;
         four_area = 4 * area
     in Vec3 ((b_squared + c_squared - a_squared) / four_area)
             ((c_squared + a_squared - b_squared) / four_area)
             ((a_squared + b_squared - c_squared) / four_area))"

text \<open>
  \<^verbatim>\<open>int index_map[3][2] = { {1, 2}, {2, 0}, {0, 1} }\<close>, the table that is also called
  \<^verbatim>\<open>edge_map\<close>: the edge opposite to corner \<open>i\<close> of a face.
\<close>

definition index_map :: "nat \<Rightarrow> nat \<times> nat" where
  "index_map i = (if i = 0 then (1, 2) else if i = 1 then (2, 0) else (0, 1))"

text \<open>The body of the loop over the three corners of one face.\<close>

definition weight_step :: "nat \<times> nat \<times> nat \<Rightarrow> vec3 \<Rightarrow> nat \<Rightarrow> sparse \<Rightarrow> sparse" where
  "weight_step face cotangent i w =
    (let first = face_at face (fst (index_map i));
         second = face_at face (snd (index_map i));
         half_cot = vnth cotangent i / 2;
         w1 = add_to w first second half_cot;
         w2 = add_to w1 second first half_cot;
         w3 = sub_from w2 first first half_cot;
         w4 = sub_from w3 second second half_cot
     in w4)"

text \<open>The body of the loop over the faces, and the whole loop on the resized matrix.\<close>

definition weight_face :: "solver_state \<Rightarrow> nat \<Rightarrow> sparse \<Rightarrow> sparse" where
  "weight_face s f w = fold (weight_step (faces s ! f) (ComputeCotangent s f)) [0, 1, 2] w"

definition compute_weight :: "solver_state \<Rightarrow> sparse" where
  "compute_weight s = fold (weight_face s) [0..<length (faces s)] Map.empty"

text \<open>
  Every face of a well-formed mesh names three vertices of the mesh and has non-zero
  area.
\<close>

definition face_area :: "solver_state \<Rightarrow> nat \<Rightarrow> real" where
  "face_area s f =
    norm3 (cross (vertices s ! face_at (faces s ! f) 1 - vertices s ! face_at (faces s ! f) 0)
                 (vertices s ! face_at (faces s ! f) 2 - vertices s ! face_at (faces s ! f) 0)) / 2"

definition wf_mesh :: "solver_state \<Rightarrow> bool" where
  "wf_mesh s \<longleftrightarrow>
     (\<forall>f < length (faces s).
        (\<forall>k < 3. face_at (faces s ! f) k < length (vertices s)) \<and> face_area s f \<noteq> 0)"

text \<open>
  What one face adds to the entry \<open>(i, j)\<close>, \<open>i \<noteq> j\<close>, of the weight matrix: half the
  cotangent of a corner for the edge opposite to that corner, in both directions.
\<close>

definition face_contribution :: "solver_state \<Rightarrow> nat \<Rightarrow> nat \<Rightarrow> nat \<Rightarrow> real" where
  "face_contribution s f i j =
    (\<Sum>e\<leftarrow>[0, 1, 2].
       if {i, j} = {face_at (faces s ! f) (fst (index_map e)),
                    face_at (faces s ! f) (snd (index_map e))}
       then vnth (ComputeCotangent s f) e / 2 else 0)"

subsection \<open>The system matrix of Precompute\<close>

text \<open>
  Modelled from the spec: \<^verbatim>\<open>GetMatrixVariablePos\<close> is declared outside the source
  file. The layout comment of Precompute places the three columns of the rotation of
  vertex \<open>v\<close> at \<^verbatim>\<open>free_num + 3 * v\<close> to \<^verbatim>\<open>free_num + 3 * v + 2\<close>, after the
  \<^verbatim>\<open>free_num\<close> position unknowns.
\<close>

definition GetMatrixVariablePos :: "solver_state \<Rightarrow> nat \<Rightarrow> nat \<Rightarrow> nat" where
  "GetMatrixVariablePos s v i = length (free s) + 3 * v + i"

text \<open>
  The first method (\<^verbatim>\<open>USE_LINEAR_SOLVE_1\<close>, the one that is compiled): the gradient,
  term by term. First the loop that adds rho on the diagonal of the rotation block.
\<close>

definition rho_diagonal :: "solver_state \<Rightarrow> sparse \<Rightarrow> sparse" where
  "rho_diagonal s m =
    (let free_num = length (free s); vertex_num = length (vertices s)
     in fold (\<lambda>i m. add_to m i i (rho s)) [free_num..<free_num + 3 * vertex_num] m)"

text \<open>The body of the loop over the edges \<open>e\<close> of the faces \<open>f\<close>.\<close>

definition M1_step :: "solver_state \<Rightarrow> nat \<Rightarrow> nat \<Rightarrow> sparse \<Rightarrow> sparse" where
  "M1_step s f e m =
    (let free_num = length (free s);
         first = face_at (faces s ! f) (fst (index_map e));
         second = face_at (faces s ! f) (snd (index_map e));
         first_type = type (vertex_info s ! first);
         second_type = type (vertex_info s ! second);
         first_pos = pos (vertex_info s ! first);
         second_pos = pos (vertex_info s ! second);
         weight' = coeff (weight s) first second;
         v = vertices s ! first - vertices s ! second;
         m1 = (if first_type = Free then
                 let ma = add_to m first_pos first_pos (2 * weight');
                     mb = (if second_type = Free
                           then sub_from ma first_pos second_pos (2 * weight') else ma)
                 in fold (\<lambda>i m. sub_from m first_pos (GetMatrixVariablePos s first i)
                                   (2 * weight' * vnth v i)) [0, 1, 2] mb
               else m);
         m2 = (if second_type = Free then
                 let ma = add_to m1 second_pos second_pos (2 * weight');
                     mb = (if first_type = Free
                           then sub_from ma second_pos first_pos (2 * weight') else ma)
                 in fold (\<lambda>i m. add_to m second_pos (GetMatrixVariablePos s first i)
                                   (2 * weight' * vnth v i)) [0, 1, 2] mb
               else m1);
         mm = mscale 2 (mscale weight' (outer v v));
         m3 = fold (\<lambda>i m. fold (\<lambda>j m. add_to m (free_num + 3 * first + i)
                                         (free_num + 3 * first + j) (mnth mm i j)) [0, 1, 2] m)
                [0, 1, 2] m2;
         m4 = (if first_type = Free then
                 fold (\<lambda>i m. let val = weight' * 2 * vnth v i
                          in sub_from m (GetMatrixVariablePos s first i) first_pos val) [0, 1, 2] m3
               else m3);
         m5 = (if second_type = Free then
                 fold (\<lambda>i m. let val = weight' * 2 * vnth v i
                          in add_to m (GetMatrixVariablePos s first i) second_pos val) [0, 1, 2] m4
               else m4)
     in m5)"

definition M1_face :: "solver_state \<Rightarrow> nat \<Rightarrow> sparse \<Rightarrow> sparse" where
  "M1_face s f m = fold (M1_step s f) [0, 1, 2] m"

definition compute_M_1 :: "solver_state \<Rightarrow> sparse" where
  "compute_M_1 s = fold (M1_face s) [0..<length (faces s)] (rho_diagonal s Map.empty)"













subsection \<open>IsSO3 and ComputeEnergy\<close>

text \<open>\<^verbatim>\<open>const double kMatrixDiffThreshold = 1e-6\<close> and \<^verbatim>\<open>kEnergyTolerance = 0.02\<close>.\<close>

definition kMatrixDiffThreshold :: real where
  "kMatrixDiffThreshold = 1 / 1000000"

definition kEnergyTolerance :: real where
  "kEnergyTolerance = 2 / 100"

text \<open>
  The test of membership in SO(3). The unqualified \<^verbatim>\<open>abs\<close> of the source is read as
  the absolute value of a double.
\<close>

definition IsSO3 :: "mat3 \<Rightarrow> bool" where
  "IsSO3 Sm =
    (let det = determinant Sm
     in if msquaredNorm (mmul Sm (transpose3 Sm) - Identity) > kMatrixDiffThreshold
           \<or> \<bar>det - 1\<bar> > kMatrixDiffThreshold
        then False else True)"

text \<open>An energy is a double that may be \<^verbatim>\<open>std::numeric_limits<double>::infinity()\<close>.\<close>

datatype energy_value = Finite real | Infinity










subsection \<open>Precompute\<close>

text \<open>
  The sparse Cholesky factorisation is an external library. \<open>compute_ok m\<close> tells
  whether \<^verbatim>\<open>solver_.compute(M_)\<close> reports success on the matrix \<open>m\<close>. The first
  method of assembly is the one compiled (\<^verbatim>\<open>#define USE_LINEAR_SOLVE_1\<close>).
\<close>

definition Precompute :: "(sparse \<Rightarrow> bool) \<Rightarrow> solver_state \<Rightarrow> result" where
  "Precompute compute_ok s =
    (let s1 = s\<lparr>weight := compute_weight s\<rparr>;
         s2 = s1\<lparr>M := compute_M_1 s1\<rparr>;
         s3 = s2\<lparr>solver := Some (M s2)\<rparr>
     in if \<not> compute_ok (M s3) then Inl (CholeskyFailed, s3) else Inr s3)"

subsection \<open>SolveOneIteration\<close>

text \<open>
  The right-hand side and the solution are dense matrices with three columns: lists of
  rows. \<^verbatim>\<open>block<3, 3>(r, 0)\<close> is the 3 by 3 block of the rows \<open>r\<close>, \<open>r + 1\<close>, \<open>r + 2\<close>.
\<close>

definition get_block :: "vec3 list \<Rightarrow> nat \<Rightarrow> mat3" where
  "get_block xs r = Mat3 (xs ! r) (xs ! (r + 1)) (xs ! (r + 2))"

definition set_block :: "vec3 list \<Rightarrow> nat \<Rightarrow> mat3 \<Rightarrow> vec3 list" where
  "set_block xs r m = xs[r := row0 m, r + 1 := row1 m, r + 2 := row2 m]"

definition add_block :: "vec3 list \<Rightarrow> nat \<Rightarrow> mat3 \<Rightarrow> vec3 list" where
  "add_block xs r m = set_block xs r (get_block xs r + m)"

definition add_row :: "vec3 list \<Rightarrow> nat \<Rightarrow> vec3 \<Rightarrow> vec3 list" where
  "add_row xs i v = xs[i := xs ! i + v]"

text \<open>The loop over the vertices that sets the rotation blocks of the right-hand side.\<close>

definition rhs_rotation :: "solver_state \<Rightarrow> vec3 list \<Rightarrow> vec3 list" where
  "rhs_rotation s rhs =
    (let free_num = length (free s); vertex_num = length (vertices s)
     in fold (\<lambda>v rhs. set_block rhs (free_num + 3 * v)
                         (mscale (rho s) (transpose3 (S s ! v - T s ! v))))
          [0..<vertex_num] rhs)"

text \<open>
  What the directed edge from \<open>first\<close> to \<open>second\<close> adds to the right-hand side: the
  part of the loop body after the \<^verbatim>\<open>continue\<close>.
\<close>

definition rhs_edge_term :: "solver_state \<Rightarrow> nat \<Rightarrow> nat \<Rightarrow> vec3 list \<Rightarrow> vec3 list" where
  "rhs_edge_term s first second rhs =
    (let first_type = type (vertex_info s ! first);
         second_type = type (vertex_info s ! second);
         first_pos = pos (vertex_info s ! first);
         second_pos = pos (vertex_info s ! second);
         weight' = coeff (weight s) first second;
         v = vertices s ! first - vertices s ! second;
         rhs1 = (if first_type = Free
                 then add_row rhs first_pos (vscale (2 * weight') (vertices_updated s ! second))
                 else rhs);
         rhs2 = (if second_type = Free
                 then add_row rhs1 second_pos (vscale (2 * weight') (vertices_updated s ! first))
                 else rhs1);
         b0 = 0;
         b1 = (if first_type = Fixed then b0 + vertices_updated s ! first else b0);
         b2 = (if second_type = Fixed then b1 - vertices_updated s ! second else b1);
         m = mscale weight' (mscale 2 (outer v b2))
     in add_block rhs2 (GetMatrixVariablePos s first 0) m)"

definition rhs_step :: "solver_state \<Rightarrow> nat \<Rightarrow> nat \<Rightarrow> vec3 list \<Rightarrow> vec3 list" where
  "rhs_step s f e rhs =
    (let first = face_at (faces s ! f) (fst (index_map e));
         second = face_at (faces s ! f) (snd (index_map e));
         first_type = type (vertex_info s ! first);
         second_type = type (vertex_info s ! second)
     in if first_type = Free \<and> second_type = Free then rhs
        else rhs_edge_term s first second rhs)"

definition rhs_face :: "solver_state \<Rightarrow> nat \<Rightarrow> vec3 list \<Rightarrow> vec3 list" where
  "rhs_face s f rhs = fold (rhs_step s f) [0, 1, 2] rhs"

definition build_rhs :: "solver_state \<Rightarrow> vec3 list" where
  "build_rhs s =
    (let free_num = length (free s); vertex_num = length (vertices s);
         rhs = replicate (free_num + 3 * vertex_num) 0
     in fold (rhs_face s) [0..<length (faces s)] (rhs_rotation s rhs))"

text \<open>\<^verbatim>\<open>(M_ * solution - rhs).squaredNorm()\<close> for the square matrix \<open>M_\<close> of size \<open>n\<close>.\<close>

definition sparse_times_dense :: "nat \<Rightarrow> sparse \<Rightarrow> vec3 list \<Rightarrow> vec3 list" where
  "sparse_times_dense n m x =
    map (\<lambda>i. \<Sum>j\<leftarrow>[0..<n]. vscale (coeff m i j) (x ! j)) [0..<n]"

definition dense_squaredNorm :: "vec3 list \<Rightarrow> real" where
  "dense_squaredNorm xs = (\<Sum>x\<leftarrow>xs. squaredNorm x)"

definition residual :: "solver_state \<Rightarrow> vec3 list \<Rightarrow> vec3 list \<Rightarrow> real" where
  "residual s solution rhs =
    dense_squaredNorm
      (map2 (\<lambda>x y. x - y)
         (sparse_times_dense (length (free s) + 3 * length (vertices s)) (M s) solution) rhs)"

text \<open>
  Step 1, the linear solve. The solve of the factorised system is external:
  \<open>solve fact rhs\<close> is the solution that \<^verbatim>\<open>solver_.solve(rhs)\<close> returns, or \<open>None\<close>
  when \<^verbatim>\<open>solver_.info()\<close> does not report success afterwards.
\<close>

definition linear_solve_step ::
  "(sparse option \<Rightarrow> vec3 list \<Rightarrow> vec3 list option) \<Rightarrow> solver_state \<Rightarrow> result" where
  "linear_solve_step solve s =
    (let free_num = length (free s); vertex_num = length (vertices s);
         rhs = build_rhs s
     in case solve (solver s) rhs of
          None \<Rightarrow> Inl (SolveFailed, s)
        | Some solution \<Rightarrow>
            if length solution \<noteq> free_num + 3 * vertex_num
            then Inl (SolutionDimensionMismatch, s)
            else if residual s solution rhs > kMatrixDiffThreshold
            then Inl (LinearSolverWrong, s)
            else
              let s1 = s\<lparr>vertices_updated :=
                          assign_rows (free s) solution [0..<free_num] (vertices_updated s)\<rparr>;
                  s2 = s1\<lparr>rotations :=
                          fold (\<lambda>v rs. rs[v := transpose3 (get_block solution (free_num + 3 * v))])
                            [0..<vertex_num] (rotations s1)\<rparr>
              in Inr s2)"

text \<open>
  Step 2, the SVD solve. \<^verbatim>\<open>igl::polar_svd3x3\<close> is an external library function; it
  is a parameter of the model.
\<close>

definition svd_solve_step :: "(mat3 \<Rightarrow> mat3) \<Rightarrow> solver_state \<Rightarrow> solver_state" where
  "svd_solve_step polar_svd3x3 s =
    s\<lparr>S := fold (\<lambda>i ss. let res = rotations s ! i + T s ! i;
                             rotation = polar_svd3x3 res
                         in ss[i := rotation])
               [0..<length (vertices s)] (S s)\<rparr>"

text \<open>Step 3, the update of T.\<close>

definition update_T_step :: "solver_state \<Rightarrow> solver_state" where
  "update_T_step s =
    s\<lparr>T := fold (\<lambda>i ts. ts[i := ts ! i + (rotations s ! i - S s ! i)])
               [0..<length (vertices s)] (T s)\<rparr>"

text \<open>
  The iteration as it is compiled: \<^verbatim>\<open>USE_TEST_FUNCTIONS\<close> is not defined, so the
  checks between the steps are not part of it.
\<close>

definition SolveOneIteration ::
  "(sparse option \<Rightarrow> vec3 list \<Rightarrow> vec3 list option) \<Rightarrow> (mat3 \<Rightarrow> mat3) \<Rightarrow> solver_state \<Rightarrow> result"
  where
  "SolveOneIteration solve polar_svd3x3 s =
    (case linear_solve_step solve s of
       Inl err \<Rightarrow> Inl err
     | Inr s1 \<Rightarrow> Inr (update_T_step (svd_solve_step polar_svd3x3 s1)))"

text \<open>ComputeSVDSolveEnergy, the energy that the SVD step is meant to decrease.\<close>

definition ComputeSVDSolveEnergy :: "solver_state \<Rightarrow> energy_value" where
  "ComputeSVDSolveEnergy s =
    (let vertex_num = length (vertices s)
     in if \<not> list_all (\<lambda>v. IsSO3 (S s ! v)) [0..<vertex_num] then Infinity
        else
          let energy = fold (\<lambda>v acc. acc + msquaredNorm (rotations s ! v - S s ! v + T s ! v))
                         [0..<vertex_num] 0
          in Finite (energy * (rho s / 2)))"

text \<open>
  The test between the two evaluations of that energy in SolveOneIteration (under
  \<^verbatim>\<open>USE_TEST_FUNCTIONS\<close>): \<open>True\<close> when the iteration is terminated.
\<close>

definition svd_energy_check_fails :: "energy_value \<Rightarrow> energy_value \<Rightarrow> bool" where
  "svd_energy_check_fails energy_before_svd energy_after_svd =
    (case (energy_before_svd, energy_after_svd) of
       (Finite b, Finite a) \<Rightarrow> b < a - kEnergyTolerance
     | _ \<Rightarrow> True)"

text \<open>
  The per-vertex members have one entry per vertex, as SolvePreprocess leaves them, and
  the free indices are distinct vertices of the mesh.
\<close>

definition wf_iteration :: "solver_state \<Rightarrow> bool" where
  "wf_iteration s \<longleftrightarrow>
     length (vertices_updated s) = length (vertices s)
     \<and> length (rotations s) = length (vertices s)
     \<and> length (S s) = length (vertices s)
     \<and> length (T s) = length (vertices s)
     \<and> distinct (free s) \<and> list_all (\<lambda>p. p < length (vertices s)) (free s)"

text \<open>
  The words of the specification: a proper rotation is orthogonal with determinant 1;
  the closest proper rotation to \<open>X\<close> is a proper rotation at least as near to \<open>X\<close>, in
  the Frobenius norm, as any other.
\<close>

definition proper_rotation :: "mat3 \<Rightarrow> bool" where
  "proper_rotation Q \<longleftrightarrow> mmul Q (transpose3 Q) = Identity \<and> determinant Q = 1"

definition closest_rotation :: "mat3 \<Rightarrow> mat3 \<Rightarrow> bool" where
  "closest_rotation R' X \<longleftrightarrow>
     proper_rotation R'
     \<and> (\<forall>Q. proper_rotation Q \<longrightarrow> msquaredNorm (R' - X) \<le> msquaredNorm (Q - X))"




subsection \<open>Auxiliary notions of the proofs\<close>

text \<open>A sparse matrix is symmetric when it stores the same at \<open>(i, j)\<close> and at \<open>(j, i)\<close>.\<close>

definition sym_sparse :: "sparse \<Rightarrow> bool" where
  "sym_sparse m \<longleftrightarrow> (\<forall>i j. m (i, j) = m (j, i))"

text \<open>The change of the coefficient \<open>(a, b)\<close> in one pass of the loop over the corners.\<close>

definition step_delta :: "nat \<times> nat \<times> nat \<Rightarrow> vec3 \<Rightarrow> nat \<Rightarrow> nat \<Rightarrow> nat \<Rightarrow> real" where
  "step_delta face ct e a b =
    (let first = face_at face (fst (index_map e)); second = face_at face (snd (index_map e));
         h = vnth ct e / 2
     in (if a = first \<and> b = second then h else 0) + (if a = second \<and> b = first then h else 0)
        - (if a = first \<and> b = first then h else 0) - (if a = second \<and> b = second then h else 0))"

text \<open>All stored entries of an \<open>n\<close> by \<open>n\<close> matrix lie inside it.\<close>

definition in_range :: "nat \<Rightarrow> sparse \<Rightarrow> bool" where
  "in_range n m \<longleftrightarrow> (\<forall>i j. (i, j) \<in> dom m \<longrightarrow> i < n \<and> j < n)"




subsection \<open>Concrete solver objects\<close>

text \<open>
  One triangle in the plane \<open>z = 0\<close>; vertex 0 is fixed, vertices 1 and 2 are free.
\<close>

definition example_state :: solver_state where
  "example_state = \<lparr>vertices = [Vec3 0 0 0, Vec3 1 0 0, Vec3 0 1 0], faces = [(0, 1, 2)],
     fixed = [0], free = [1, 2],
     vertex_info = [\<lparr>type = Fixed, pos = 0\<rparr>, \<lparr>type = Free, pos = 0\<rparr>, \<lparr>type = Free, pos = 1\<rparr>],
     max_iteration = 10, rho = 1, weight = Map.empty, M = Map.empty, solver = None,
     fixed_vertices = [], vertices_updated = [], rotations = [], S = [], T = []\<rparr>"

text \<open>The same object on an equilateral triangle of side 1.\<close>

definition equilateral_state :: solver_state where
  "equilateral_state = example_state\<lparr>vertices := [Vec3 0 0 0, Vec3 1 0 0, Vec3 (1/2) (sqrt 3 / 2) 0]\<rparr>"



text \<open>A mesh of one fixed vertex and no face, after Precompute and SolvePreprocess.\<close>

definition boundary_state :: solver_state where
  "boundary_state = \<lparr>vertices = [Vec3 0 0 0], faces = [], fixed = [0], free = [],
     vertex_info = [\<lparr>type = Fixed, pos = 0\<rparr>],
     max_iteration = 10, rho = 1, weight = Map.empty,
     M = [(0, 0) \<mapsto> 1, (1, 1) \<mapsto> 1, (2, 2) \<mapsto> 1],
     solver = Some [(0, 0) \<mapsto> 1, (1, 1) \<mapsto> 1, (2, 2) \<mapsto> 1],
     fixed_vertices = [Vec3 0 0 0], vertices_updated = [Vec3 0 0 0], rotations = [Identity],
     S = [Identity], T = [Zero]\<rparr>"

text \<open>
  Three solve functions: one whose solution misses the system by exactly the threshold,
  one whose solution has a row too few, and one whose solution is far off. The first
  solution differs from the exact one, the identity block, in one entry, by \<open>0.001\<close>:
  the difference of \<^verbatim>\<open>M_ * solution\<close> and the right-hand side is then \<open>0.001\<close> in
  that entry and 0 elsewhere. The same holds of the doubles of the source: the entries 0,
  1 and \<open>0.001\<close> pass through the product and the difference unchanged, and the
  rounded square of the double \<open>0.001\<close> is the double \<open>1e-6\<close>, the threshold.
\<close>

definition boundary_solution :: "vec3 list" where
  "boundary_solution = [Vec3 1 (1 / 1000) 0, Vec3 0 1 0, Vec3 0 0 1]"

definition boundary_solve :: "sparse option \<Rightarrow> vec3 list \<Rightarrow> vec3 list option" where
  "boundary_solve factorisation rhs = Some boundary_solution"

definition short_solve :: "sparse option \<Rightarrow> vec3 list \<Rightarrow> vec3 list option" where
  "short_solve factorisation rhs = Some [Vec3 1 0 0, Vec3 0 1 0]"

definition far_solve :: "sparse option \<Rightarrow> vec3 list \<Rightarrow> vec3 list option" where
  "far_solve factorisation rhs = Some [Vec3 2 0 0, Vec3 0 1 0, Vec3 0 0 1]"




text \<open>A quarter turn about the third axis.\<close>

definition quarter_turn :: mat3 where
  "quarter_turn = Mat3 (Vec3 0 (- 1) 0) (Vec3 1 0 0) (Vec3 0 0 1)"

text \<open>
  One fixed vertex whose projected rotation is a quarter turn, while its rotation is the
  identity and its dual variable is zero.
\<close>

definition turned_state :: solver_state where
  "turned_state = boundary_state\<lparr>S := [quarter_turn]\<rparr>"

section \<open>SolvePreprocess\<close>

lemma length_assign_rows: "length (assign_rows fx fv is vu) = length vu"
  by (induction "is" arbitrary: vu) auto

lemma assign_rows_other:
  "v \<notin> (\<lambda>i. fx ! i) ` set is \<Longrightarrow> assign_rows fx fv is vu ! v = vu ! v"
  by (induction "is" arbitrary: vu) auto

lemma assign_rows_hit:
  "i \<in> set is \<Longrightarrow> distinct (map (\<lambda>i. fx ! i) is) \<Longrightarrow> fx ! i < length vu
   \<Longrightarrow> assign_rows fx fv is vu ! (fx ! i) = fv ! i"
proof (induction "is" arbitrary: vu)
  case Nil
  then show ?case by simp
next
  case (Cons j js)
  show ?case
  proof (cases "i = j")
    case True
    have "fx ! j \<notin> (\<lambda>i. fx ! i) ` set js" using Cons.prems(2) by auto
    then have "assign_rows fx fv js (vu[fx ! j := fv ! j]) ! (fx ! j) = vu[fx ! j := fv ! j] ! (fx ! j)"
      by (rule assign_rows_other)
    with True Cons.prems(3) show ?thesis by simp
  next
    case False
    with Cons.prems have "i \<in> set js" "distinct (map (\<lambda>i. fx ! i) js)" by auto
    then show ?thesis using Cons.IH[of "vu[fx ! j := fv ! j]"] Cons.prems(3) by simp
  qed
qed

text \<open>
  Claim C7. When the fixed indices are distinct vertices of the mesh and the target
  matrix has one row per fixed vertex, SolvePreprocess succeeds, and afterwards: the
  updated position of the i-th fixed vertex is the i-th target row; the updated
  position of every other vertex is its rest position; every rotation and every
  projected rotation is the identity; every dual variable is the zero matrix.
\<close>

theorem SolvePreprocess_postcondition:
  assumes wf: "wf_fixed s" and len: "length fv = length (fixed s)"
  shows "\<exists>s'. SolvePreprocess s fv = Inr s'
     \<and> length (vertices_updated s') = length (vertices s)
     \<and> (\<forall>i < length (fixed s). vertices_updated s' ! (fixed s ! i) = fv ! i)
     \<and> (\<forall>v < length (vertices s). v \<notin> set (fixed s) \<longrightarrow> vertices_updated s' ! v = vertices s ! v)
     \<and> rotations s' = replicate (length (vertices s)) Identity
     \<and> S s' = replicate (length (vertices s)) Identity
     \<and> T s' = replicate (length (vertices s)) Zero"
proof -
  let ?vu = "assign_rows (fixed s) fv [0..<length (fixed s)] (vertices s)"
  have d: "distinct (map (\<lambda>i. fixed s ! i) [0..<length (fixed s)])"
    using wf by (simp add: wf_fixed_def map_nth)
  have hit: "?vu ! (fixed s ! i) = fv ! i" if "i < length (fixed s)" for i
  proof (rule assign_rows_hit)
    show "i \<in> set [0..<length (fixed s)]" using that by simp
    show "distinct (map (\<lambda>i. fixed s ! i) [0..<length (fixed s)])" by (rule d)
    show "fixed s ! i < length (vertices s)"
      using wf that by (simp add: wf_fixed_def list_all_length)
  qed
  have other: "?vu ! v = vertices s ! v" if "v \<notin> set (fixed s)" for v
  proof (rule assign_rows_other)
    have "(\<lambda>i. fixed s ! i) ` set [0..<length (fixed s)] = set (fixed s)"
      by (metis list.set_map map_nth)
    with that show "v \<notin> (\<lambda>i. fixed s ! i) ` set [0..<length (fixed s)]" by simp
  qed
  show ?thesis
    using len hit other by (simp add: SolvePreprocess_def Let_def length_assign_rows)
qed

theorem SolvePreprocess_postcondition_witness:
  "wf_fixed example_state \<and> length [Vec3 5 6 7] = length (fixed example_state)
   \<and> (\<exists>s'. SolvePreprocess example_state [Vec3 5 6 7] = Inr s'
        \<and> vertices_updated s' = [Vec3 5 6 7, Vec3 1 0 0, Vec3 0 1 0]
        \<and> rotations s' = [Identity, Identity, Identity]
        \<and> S s' = [Identity, Identity, Identity]
        \<and> T s' = [Zero, Zero, Zero])"
proof -
  have wf: "wf_fixed example_state" by (simp add: wf_fixed_def example_state_def)
  have len: "length [Vec3 5 6 7] = length (fixed example_state)" by (simp add: example_state_def)
  from SolvePreprocess_postcondition [OF wf len] obtain s' where
    "SolvePreprocess example_state [Vec3 5 6 7] = Inr s'" by blast
  then show ?thesis using wf len
    by (auto simp add: SolvePreprocess_def Let_def example_state_def numeral_3_eq_3 upt_rec)
qed

text \<open>
  Claim C9. SolvePreprocess compares the row count of the target matrix with the
  number of fixed vertices: when they differ the call terminates the process with the
  message of the dimension check, and when they agree the call runs to its end.
\<close>

theorem SolvePreprocess_dimension_check:
  "(length fv \<noteq> length (fixed s) \<longrightarrow>
      SolvePreprocess s fv = Inl (WrongDimension, s\<lparr>fixed_vertices := fv\<rparr>))
   \<and> (length fv = length (fixed s) \<longrightarrow> (\<exists>s'. SolvePreprocess s fv = Inr s'))"
  by (simp add: SolvePreprocess_def Let_def)

theorem SolvePreprocess_dimension_check_witness:
  "length [Vec3 5 6 7, Vec3 1 1 1] \<noteq> length (fixed example_state)
   \<and> SolvePreprocess example_state [Vec3 5 6 7, Vec3 1 1 1]
       = Inl (WrongDimension, example_state\<lparr>fixed_vertices := [Vec3 5 6 7, Vec3 1 1 1]\<rparr>)
   \<and> length [Vec3 5 6 7] = length (fixed example_state)
   \<and> (\<exists>s'. SolvePreprocess example_state [Vec3 5 6 7] = Inr s')"
  using SolvePreprocess_dimension_check [of "[Vec3 5 6 7, Vec3 1 1 1]" example_state]
    SolvePreprocess_dimension_check [of "[Vec3 5 6 7]" example_state]
  by (simp add: example_state_def)

text \<open>
  Claim C10. The target matrix is cached before the row count is checked: a call that
  exits does so at the dimension check, with the cached targets already replaced by
  the supplied matrix and with the updated positions, R, S and T as they were. A call
  that runs to its end changes no member other than the cached targets, the updated
  positions, R, S and T.
\<close>

theorem SolvePreprocess_frame:
  "(SolvePreprocess s fv = Inl (e, s1) \<longrightarrow>
      e = WrongDimension \<and> length fv \<noteq> length (fixed s)
      \<and> fixed_vertices s1 = fv
      \<and> vertices_updated s1 = vertices_updated s \<and> rotations s1 = rotations s
      \<and> S s1 = S s \<and> T s1 = T s)
   \<and> (SolvePreprocess s fv = Inr s' \<longrightarrow>
      fixed_vertices s' = fv
      \<and> s' = s\<lparr>fixed_vertices := fixed_vertices s', vertices_updated := vertices_updated s',
               rotations := rotations s', S := S s', T := T s'\<rparr>)"
  by (auto simp add: SolvePreprocess_def Let_def split: if_splits)

theorem SolvePreprocess_frame_witness:
  "SolvePreprocess (example_state\<lparr>fixed_vertices := [Vec3 9 9 9]\<rparr>) [Vec3 5 6 7, Vec3 1 1 1]
     = Inl (WrongDimension, example_state\<lparr>fixed_vertices := [Vec3 5 6 7, Vec3 1 1 1]\<rparr>)
   \<and> fixed_vertices (example_state\<lparr>fixed_vertices := [Vec3 5 6 7, Vec3 1 1 1]\<rparr>)
       \<noteq> fixed_vertices (example_state\<lparr>fixed_vertices := [Vec3 9 9 9]\<rparr>)
   \<and> (\<exists>s'. SolvePreprocess example_state [Vec3 5 6 7] = Inr s'
        \<and> s' = example_state\<lparr>fixed_vertices := fixed_vertices s',
               vertices_updated := vertices_updated s',
               rotations := rotations s', S := S s', T := T s'\<rparr>)"
proof -
  have a: "SolvePreprocess (example_state\<lparr>fixed_vertices := [Vec3 9 9 9]\<rparr>) [Vec3 5 6 7, Vec3 1 1 1]
     = Inl (WrongDimension, example_state\<lparr>fixed_vertices := [Vec3 5 6 7, Vec3 1 1 1]\<rparr>)"
    by (simp add: SolvePreprocess_def Let_def example_state_def)
  obtain s' where b: "SolvePreprocess example_state [Vec3 5 6 7] = Inr s'"
    by (simp add: SolvePreprocess_def Let_def example_state_def)
  show ?thesis
    using a b SolvePreprocess_frame [of "example_state\<lparr>fixed_vertices := [Vec3 9 9 9]\<rparr>"
        "[Vec3 5 6 7, Vec3 1 1 1]" WrongDimension
        "example_state\<lparr>fixed_vertices := [Vec3 5 6 7, Vec3 1 1 1]\<rparr>" s']
      SolvePreprocess_frame [of example_state "[Vec3 5 6 7]" WrongDimension example_state s']
    by (auto simp add: example_state_def)
qed

section \<open>The weight matrix\<close>

lemma coeff_add_to: "coeff (add_to m i j x) a b = coeff m a b + (if a = i \<and> b = j then x else 0)"
  by (simp add: coeff_def add_to_def)

lemma coeff_sub_from: "coeff (sub_from m i j x) a b = coeff m a b - (if a = i \<and> b = j then x else 0)"
  by (simp add: coeff_def sub_from_def)

lemma coeff_empty: "coeff Map.empty a b = 0"
  by (simp add: coeff_def)

lemma sym_add_pair: "sym_sparse w \<Longrightarrow> sym_sparse (add_to (add_to w i j x) j i x)"
proof (cases "i = j")
  case True
  assume "sym_sparse w"
  then show ?thesis using True by (simp add: sym_sparse_def add_to_def)
next
  case False
  assume "sym_sparse w"
  then have c: "coeff w j i = coeff w i j" by (simp add: sym_sparse_def coeff_def)
  show ?thesis using False \<open>sym_sparse w\<close> c
    by (simp add: sym_sparse_def add_to_def coeff_add_to[unfolded add_to_def])
qed

lemma sym_sub_diag: "sym_sparse w \<Longrightarrow> sym_sparse (sub_from w i i x)"
  by (simp add: sym_sparse_def sub_from_def)

lemma sym_weight_step: "sym_sparse w \<Longrightarrow> sym_sparse (weight_step face ct i w)"
  by (simp add: weight_step_def Let_def sym_add_pair sym_sub_diag)

lemma sym_weight_face: "sym_sparse w \<Longrightarrow> sym_sparse (weight_face s f w)"
  by (simp add: weight_face_def sym_weight_step)

lemma sym_fold_weight_face: "sym_sparse w \<Longrightarrow> sym_sparse (fold (weight_face s) fs w)"
  by (induction fs arbitrary: w) (simp_all add: sym_weight_face)

lemma sym_compute_weight: "sym_sparse (compute_weight s)"
  unfolding compute_weight_def by (rule sym_fold_weight_face) (simp add: sym_sparse_def)

lemma coeff_weight_step:
  "coeff (weight_step face ct e w) a b = coeff w a b + step_delta face ct e a b"
  by (simp add: weight_step_def Let_def coeff_add_to coeff_sub_from step_delta_def)

lemma coeff_weight_face:
  "coeff (weight_face s f w) a b = coeff w a b
     + (\<Sum>e\<leftarrow>[0, 1, 2]. step_delta (faces s ! f) (ComputeCotangent s f) e a b)"
  by (simp add: weight_face_def coeff_weight_step)

lemma coeff_fold_weight_face:
  "coeff (fold (weight_face s) fs w) a b = coeff w a b
     + (\<Sum>f\<leftarrow>fs. \<Sum>e\<leftarrow>[0, 1, 2]. step_delta (faces s ! f) (ComputeCotangent s f) e a b)"
  by (induction fs arbitrary: w) (simp_all add: coeff_weight_face add.assoc)

lemma step_delta_offdiag:
  "a \<noteq> b \<Longrightarrow> step_delta face ct e a b =
     (if {a, b} = {face_at face (fst (index_map e)), face_at face (snd (index_map e))}
      then vnth ct e / 2 else 0)"
  by (auto simp add: step_delta_def Let_def doubleton_eq_iff)

lemma coeff_compute_weight_offdiag:
  assumes "i \<noteq> j"
  shows "coeff (compute_weight s) i j = (\<Sum>f\<leftarrow>[0..<length (faces s)]. face_contribution s f i j)"
proof -
  have "(\<Sum>e\<leftarrow>[0, 1, 2]. step_delta (faces s ! f) (ComputeCotangent s f) e i j) = face_contribution s f i j" for f
    using assms by (simp add: face_contribution_def step_delta_offdiag)
  then show ?thesis
    by (simp add: compute_weight_def coeff_fold_weight_face coeff_empty)
qed

lemma sum_indicator: "(\<Sum>j<(n::nat). if j = k then x else 0) = (if k < n then (x::real) else 0)"
  by (simp add: sum.delta)

lemma sum_indicator2: "(\<Sum>j<(n::nat). if P \<and> j = k then x else 0) = (if P \<and> k < n then (x::real) else 0)"
  by (cases P) (simp_all add: sum_indicator)

lemma step_delta_row_sum:
  assumes "face_at face (fst (index_map e)) < n" "face_at face (snd (index_map e)) < n"
  shows "(\<Sum>b<n. step_delta face ct e a b) = 0"
  using assms
  by (simp add: step_delta_def Let_def sum.distrib sum_subtractf sum_indicator2)

lemma index_map_lt_3: "e < 3 \<Longrightarrow> fst (index_map e) < 3 \<and> snd (index_map e) < 3"
  by (simp add: index_map_def)

lemma wf_mesh_face_at:
  "wf_mesh s \<Longrightarrow> f < length (faces s) \<Longrightarrow> k < 3 \<Longrightarrow> face_at (faces s ! f) k < length (vertices s)"
  by (simp add: wf_mesh_def)

lemma row_sum_weight_face:
  assumes "wf_mesh s" "f < length (faces s)"
  shows "(\<Sum>b<length (vertices s). coeff (weight_face s f w) a b)
       = (\<Sum>b<length (vertices s). coeff w a b)"
proof -
  have "(\<Sum>b<length (vertices s). step_delta (faces s ! f) (ComputeCotangent s f) e a b) = 0"
    if "e < 3" for e
    using assms that by (intro step_delta_row_sum wf_mesh_face_at) (simp_all add: index_map_lt_3)
  then show ?thesis
    by (simp add: coeff_weight_face sum.distrib)
qed

lemma row_sum_fold_weight_face:
  assumes "wf_mesh s" "\<forall>f \<in> set fs. f < length (faces s)"
  shows "(\<Sum>b<length (vertices s). coeff (fold (weight_face s) fs w) a b)
       = (\<Sum>b<length (vertices s). coeff w a b)"
  using assms(2)
  by (induction fs arbitrary: w) (simp_all add: row_sum_weight_face [OF assms(1)])

lemma row_sum_compute_weight:
  assumes "wf_mesh s"
  shows "(\<Sum>b<length (vertices s). coeff (compute_weight s) a b) = 0"
  unfolding compute_weight_def
  by (subst row_sum_fold_weight_face [OF assms]) (simp_all add: coeff_empty)

lemma dom_add_to: "dom (add_to m i j x) = insert (i, j) (dom m)"
  by (simp add: add_to_def)

lemma dom_sub_from: "dom (sub_from m i j x) = insert (i, j) (dom m)"
  by (simp add: sub_from_def)

lemma in_range_weight_step:
  assumes "in_range n w" "face_at face (fst (index_map e)) < n" "face_at face (snd (index_map e)) < n"
  shows "in_range n (weight_step face ct e w)"
  using assms
  by (auto simp add: in_range_def weight_step_def Let_def dom_add_to dom_sub_from
        simp del: dom_eq_empty_conv)

lemma in_range_weight_face:
  assumes "wf_mesh s" "f < length (faces s)" "in_range (length (vertices s)) w"
  shows "in_range (length (vertices s)) (weight_face s f w)"
  using assms
  by (simp add: weight_face_def in_range_weight_step wf_mesh_face_at index_map_def)

lemma in_range_fold_weight_face:
  assumes "wf_mesh s" "\<forall>f \<in> set fs. f < length (faces s)" "in_range (length (vertices s)) w"
  shows "in_range (length (vertices s)) (fold (weight_face s) fs w)"
  using assms(2,3)
  by (induction fs arbitrary: w) (simp_all add: in_range_weight_face [OF assms(1)])

lemma in_range_compute_weight:
  assumes "wf_mesh s"
  shows "in_range (length (vertices s)) (compute_weight s)"
  unfolding compute_weight_def
  by (rule in_range_fold_weight_face [OF assms]) (simp_all add: in_range_def)

text \<open>
  Claim C5. For every well-formed mesh the weight matrix built by Precompute is
  symmetric: it stores an entry at \<open>(i, j)\<close> exactly when it stores one at \<open>(j, i)\<close>, with
  the same value. All its entries lie in the vertex range, every diagonal entry is the
  negated sum of the off-diagonal entries of its row, and every off-diagonal entry is
  the sum over the faces of the half cotangents of the corners opposite to that edge:
  each face contributes its three half-cotangent terms to its three edges and nothing
  else.
\<close>

theorem weight_matrix_symmetric_laplacian:
  assumes "wf_mesh s"
  shows "(\<forall>i j. compute_weight s (i, j) = compute_weight s (j, i))
     \<and> (\<forall>i j. (i, j) \<in> dom (compute_weight s)
               \<longrightarrow> i < length (vertices s) \<and> j < length (vertices s))
     \<and> (\<forall>i < length (vertices s).
          coeff (compute_weight s) i i
            = - (\<Sum>j \<in> {..<length (vertices s)} - {i}. coeff (compute_weight s) i j))
     \<and> (\<forall>i j. i \<noteq> j \<longrightarrow>
          coeff (compute_weight s) i j
            = (\<Sum>f\<leftarrow>[0..<length (faces s)]. face_contribution s f i j))"
proof (intro conjI allI impI)
  fix i j
  show "compute_weight s (i, j) = compute_weight s (j, i)"
    using sym_compute_weight [of s] by (simp add: sym_sparse_def)
next
  fix i j assume "(i, j) \<in> dom (compute_weight s)"
  then show "i < length (vertices s)" "j < length (vertices s)"
    using in_range_compute_weight [OF assms] unfolding in_range_def by blast+
next
  fix i assume i: "i < length (vertices s)"
  have "(\<Sum>j<length (vertices s). coeff (compute_weight s) i j) = 0"
    by (rule row_sum_compute_weight [OF assms])
  moreover have "(\<Sum>j<length (vertices s). coeff (compute_weight s) i j)
      = coeff (compute_weight s) i i
        + (\<Sum>j \<in> {..<length (vertices s)} - {i}. coeff (compute_weight s) i j)"
    using i by (simp add: sum.remove)
  ultimately show "coeff (compute_weight s) i i
      = - (\<Sum>j \<in> {..<length (vertices s)} - {i}. coeff (compute_weight s) i j)"
    by simp
next
  fix i j :: nat assume "i \<noteq> j"
  then show "coeff (compute_weight s) i j
      = (\<Sum>f\<leftarrow>[0..<length (faces s)]. face_contribution s f i j)"
    by (rule coeff_compute_weight_offdiag)
qed

lemma wf_mesh_example: "wf_mesh example_state"
  by (simp add: wf_mesh_def example_state_def face_area_def face_at_def norm3_def
      squaredNorm_def dot_def cross_def minus_vec3_def less_Suc_eq numeral_3_eq_3)

lemma ComputeCotangent_example: "ComputeCotangent example_state 0 = Vec3 0 1 1"
  by (simp add: ComputeCotangent_def Let_def example_state_def face_at_def norm3_def
      squaredNorm_def dot_def cross_def minus_vec3_def)

lemma face_contribution_example:
  "face_contribution example_state 0 0 1 = 1/2"
  "face_contribution example_state 0 0 2 = 1/2"
  "face_contribution example_state 0 1 2 = 0"
  by (simp_all add: face_contribution_def ComputeCotangent_example index_map_def vnth_def)
     (simp_all add: example_state_def face_at_def doubleton_eq_iff)

theorem weight_matrix_symmetric_laplacian_witness:
  "wf_mesh example_state
   \<and> compute_weight example_state (0, 1) = compute_weight example_state (1, 0)
   \<and> coeff (compute_weight example_state) 0 1 = 1/2
   \<and> coeff (compute_weight example_state) 0 2 = 1/2
   \<and> coeff (compute_weight example_state) 1 2 = 0
   \<and> coeff (compute_weight example_state) 0 0
        = - (\<Sum>j \<in> {..<length (vertices example_state)} - {0}. coeff (compute_weight example_state) 0 j)"
proof -
  note t = weight_matrix_symmetric_laplacian [OF wf_mesh_example]
  have n: "length (faces example_state) = 1" "0 < length (vertices example_state)"
    by (simp_all add: example_state_def)
  from t have off: "coeff (compute_weight example_state) i j
      = (\<Sum>f\<leftarrow>[0..<length (faces example_state)]. face_contribution example_state f i j)"
    if "i \<noteq> j" for i j using that by blast
  have "coeff (compute_weight example_state) 0 1 = 1/2"
    "coeff (compute_weight example_state) 0 2 = 1/2"
    "coeff (compute_weight example_state) 1 2 = 0"
    using off [of 0 1] off [of 0 2] off [of 1 2] n face_contribution_example by simp_all
  moreover from t have "compute_weight example_state (0, 1) = compute_weight example_state (1, 0)"
    by blast
  moreover from t n have "coeff (compute_weight example_state) 0 0
        = - (\<Sum>j \<in> {..<length (vertices example_state)} - {0}. coeff (compute_weight example_state) 0 j)"
    by blast
  ultimately show ?thesis using wf_mesh_example by simp
qed

section \<open>ComputeCotangent\<close>

lemma law_of_cosines:
  "squaredNorm (C - A) + squaredNorm (A - B) - squaredNorm (B - C) = 2 * dot (B - A) (C - A)"
  by (simp add: squaredNorm_def dot_def minus_vec3_def algebra_simps)

lemma lagrange_identity:
  "squaredNorm (cross u v) = squaredNorm u * squaredNorm v - (dot u v)\<^sup>2"
  by (simp add: squaredNorm_def dot_def cross_def power2_eq_square algebra_simps)

lemma squaredNorm_minus_swap: "squaredNorm (A - B) = squaredNorm (B - A)"
  by (simp add: squaredNorm_def dot_def minus_vec3_def algebra_simps)

lemma equilateral_four_area:
  assumes "squaredNorm (B - C) = 1" "squaredNorm (C - A) = 1" "squaredNorm (A - B) = 1"
  shows "4 * (norm3 (cross (B - A) (C - A)) / 2) = sqrt 3"
proof -
  have d: "dot (B - A) (C - A) = 1/2"
    using law_of_cosines [of C A B] assms by simp
  have "squaredNorm (cross (B - A) (C - A)) = 1 * 1 - (1/2)\<^sup>2"
    using assms d squaredNorm_minus_swap [of B A]
    by (simp add: lagrange_identity)
  then have "squaredNorm (cross (B - A) (C - A)) = 3/4"
    by (simp add: power2_eq_square)
  then have "norm3 (cross (B - A) (C - A)) = sqrt (3/4)"
    by (simp only: norm3_def)
  also have "sqrt (3/4) = sqrt 3 / 2"
    by (simp add: real_sqrt_divide)
  finally show ?thesis by simp
qed

text \<open>
  Claim C6. For a face of non-zero area, with corners A, B, C and squared edge lengths
  a, b, c opposite to them, ComputeCotangent returns for each corner the sum of the two
  adjacent squared edge lengths minus the opposite one, divided by four times the area,
  where the area is half the norm of the cross product of two edge vectors. When the
  three edges have length 1, each entry is 1 / sqrt 3.
\<close>

theorem ComputeCotangent_formula:
  assumes "face_area s f \<noteq> 0"
  shows "let A = vertices s ! face_at (faces s ! f) 0;
             B = vertices s ! face_at (faces s ! f) 1;
             C = vertices s ! face_at (faces s ! f) 2;
             a_squared = squaredNorm (B - C);
             b_squared = squaredNorm (C - A);
             c_squared = squaredNorm (A - B);
             area = norm3 (cross (B - A) (C - A)) / 2
         in area = face_area s f
          \<and> ComputeCotangent s f =
              Vec3 ((b_squared + c_squared - a_squared) / (4 * area))
                   ((c_squared + a_squared - b_squared) / (4 * area))
                   ((a_squared + b_squared - c_squared) / (4 * area))
          \<and> (a_squared = 1 \<and> b_squared = 1 \<and> c_squared = 1 \<longrightarrow>
               ComputeCotangent s f = Vec3 (1 / sqrt 3) (1 / sqrt 3) (1 / sqrt 3))"
proof -
  let ?A = "vertices s ! face_at (faces s ! f) 0"
  let ?B = "vertices s ! face_at (faces s ! f) 1"
  let ?C = "vertices s ! face_at (faces s ! f) 2"
  have eq: "ComputeCotangent s f = Vec3 (1 / sqrt 3) (1 / sqrt 3) (1 / sqrt 3)"
    if "squaredNorm (?B - ?C) = 1" "squaredNorm (?C - ?A) = 1" "squaredNorm (?A - ?B) = 1"
    unfolding ComputeCotangent_def Let_def
    by (simp only: that equilateral_four_area [OF that]) simp
  have area: "norm3 (cross (?B - ?A) (?C - ?A)) / 2 = face_area s f"
    by (simp add: face_area_def)
  have formula: "ComputeCotangent s f =
      Vec3 ((squaredNorm (?C - ?A) + squaredNorm (?A - ?B) - squaredNorm (?B - ?C))
              / (4 * (norm3 (cross (?B - ?A) (?C - ?A)) / 2)))
           ((squaredNorm (?A - ?B) + squaredNorm (?B - ?C) - squaredNorm (?C - ?A))
              / (4 * (norm3 (cross (?B - ?A) (?C - ?A)) / 2)))
           ((squaredNorm (?B - ?C) + squaredNorm (?C - ?A) - squaredNorm (?A - ?B))
              / (4 * (norm3 (cross (?B - ?A) (?C - ?A)) / 2)))"
    by (simp add: ComputeCotangent_def Let_def)
  show ?thesis
    unfolding Let_def using area formula eq by blast
qed

text \<open>
  The first entry is the cotangent of the angle at A: the cosine over the sine, that is
  the dot product of the two edge vectors at A over the norm of their cross product.
\<close>

lemma ComputeCotangent_is_cotangent:
  "vx (ComputeCotangent s f)
     = dot (vertices s ! face_at (faces s ! f) 1 - vertices s ! face_at (faces s ! f) 0)
           (vertices s ! face_at (faces s ! f) 2 - vertices s ! face_at (faces s ! f) 0)
       / norm3 (cross (vertices s ! face_at (faces s ! f) 1 - vertices s ! face_at (faces s ! f) 0)
           (vertices s ! face_at (faces s ! f) 2 - vertices s ! face_at (faces s ! f) 0))"
  using law_of_cosines [of "vertices s ! face_at (faces s ! f) 2" "vertices s ! face_at (faces s ! f) 0" "vertices s ! face_at (faces s ! f) 1"]
  by (simp add: ComputeCotangent_def Let_def)

lemma face_area_example: "face_area example_state 0 = 1/2"
  by (simp add: example_state_def face_area_def face_at_def norm3_def
      squaredNorm_def dot_def cross_def minus_vec3_def)

lemma sq_edges_equilateral:
  "squaredNorm (vertices equilateral_state ! face_at (faces equilateral_state ! 0) 1
       - vertices equilateral_state ! face_at (faces equilateral_state ! 0) 2) = 1"
  "squaredNorm (vertices equilateral_state ! face_at (faces equilateral_state ! 0) 2
       - vertices equilateral_state ! face_at (faces equilateral_state ! 0) 0) = 1"
  "squaredNorm (vertices equilateral_state ! face_at (faces equilateral_state ! 0) 0
       - vertices equilateral_state ! face_at (faces equilateral_state ! 0) 1) = 1"
  by (simp_all add: equilateral_state_def example_state_def face_at_def
      squaredNorm_def dot_def minus_vec3_def)

lemma face_area_equilateral: "face_area equilateral_state 0 = sqrt 3 / 4"
  using equilateral_four_area [OF sq_edges_equilateral]
  by (simp add: face_area_def)

theorem ComputeCotangent_formula_witness:
  "face_area example_state 0 \<noteq> 0
   \<and> ComputeCotangent example_state 0 = Vec3 0 1 1
   \<and> face_area equilateral_state 0 \<noteq> 0
   \<and> ComputeCotangent equilateral_state 0 = Vec3 (1 / sqrt 3) (1 / sqrt 3) (1 / sqrt 3)"
proof -
  have a: "face_area example_state 0 \<noteq> 0" by (simp add: face_area_example)
  have b: "face_area equilateral_state 0 \<noteq> 0" by (simp add: face_area_equilateral)
  have "ComputeCotangent example_state 0 = Vec3 0 1 1"
    using ComputeCotangent_formula [OF a]
    by (simp add: Let_def face_area_example)
       (simp add: example_state_def face_at_def squaredNorm_def dot_def minus_vec3_def)
  moreover have "ComputeCotangent equilateral_state 0 = Vec3 (1 / sqrt 3) (1 / sqrt 3) (1 / sqrt 3)"
    using ComputeCotangent_formula [OF b] sq_edges_equilateral
    unfolding Let_def by blast
  ultimately show ?thesis using a b by simp
qed

section \<open>ComputeEnergy\<close>


lemma fold_plus_sum_list: "fold (\<lambda>x acc. acc + g x) xs (a::real) = a + (\<Sum>x\<leftarrow>xs. g x)"
  by (induction xs arbitrary: a) simp_all





lemma sum_list_upt_sum: "(\<Sum>i\<leftarrow>[0..<n]. g i) = (\<Sum>i<n. (g i :: real))"
  by (simp add: sum_list_sum_nth atLeast0LessThan)



lemmas linalg_defs = Identity_def Zero_def mmul_def transpose3_def mcol_def mrow_def vnth_def mnth_def
  dot_def cross_def minus_mat3_def minus_vec3_def plus_mat3_def plus_vec3_def zero_mat3_def
  zero_vec3_def msquaredNorm_def squaredNorm_def determinant_def mulvec_def vscale_def mscale_def
  outer_def






section \<open>Precompute\<close>

text \<open>
  Whether or not the factorisation succeeds, Precompute leaves the weight matrix of the
  loop over the faces and the system matrix of the first method in the object.
\<close>

lemma Precompute_matrices:
  assumes "Precompute compute_ok s = Inr s' \<or> Precompute compute_ok s = Inl (err, s')"
  shows "weight s' = compute_weight s"
    and "M s' = compute_M_1 (s\<lparr>weight := compute_weight s\<rparr>)"
    and "solver s' = Some (M s')"
  using assms by (auto simp add: Precompute_def Let_def split: if_splits)

lemma Precompute_factorisation:
  "Precompute compute_ok s = Inl (err, s') \<Longrightarrow> err = CholeskyFailed \<and> \<not> compute_ok (M s')"
  by (auto simp add: Precompute_def Let_def split: if_splits)

section \<open>The two assemblies of the system matrix\<close>















lemma if_conj_prod:
  "(if P \<and> Q then x else 0) = x * ((if P then 1 else 0) * (if Q then 1 else (0::real)))"
  by simp





















section \<open>The checks after the linear solve\<close>

lemma SolveOneIteration_Inr:
  "SolveOneIteration solve polar s = Inr s' \<longleftrightarrow>
     (\<exists>s1. linear_solve_step solve s = Inr s1 \<and> s' = update_T_step (svd_solve_step polar s1))"
  by (auto simp add: SolveOneIteration_def split: sum.splits)

lemma linear_solve_step_Inr:
  "linear_solve_step solve s = Inr s1 \<Longrightarrow>
     \<exists>solution. solve (solver s) (build_rhs s) = Some solution
       \<and> length solution = length (free s) + 3 * length (vertices s)
       \<and> residual s solution (build_rhs s) \<le> kMatrixDiffThreshold
       \<and> s1 = s\<lparr>vertices_updated :=
                   assign_rows (free s) solution [0..<length (free s)] (vertices_updated s),
                 rotations :=
                   fold (\<lambda>v rs. rs[v := transpose3 (get_block solution (length (free s) + 3 * v))])
                     [0..<length (vertices s)] (rotations s)\<rparr>"
  by (auto simp add: linear_solve_step_def Let_def split: option.splits if_splits)

text \<open>
  Claim C8, as the code has it. An iteration that runs to its end has solved the system
  with a solution of as many rows as there are unknowns (the number of free vertices
  plus three per vertex) and with a squared residual of at most \<open>1e-6\<close>. A solution
  with another row count, or with a squared residual above \<open>1e-6\<close>, terminates the
  process with the message of that check.
\<close>

theorem SolveOneIteration_residual_check:
  "(SolveOneIteration solve polar s = Inr s' \<longrightarrow>
      (\<exists>solution. solve (solver s) (build_rhs s) = Some solution
         \<and> length solution = length (free s) + 3 * length (vertices s)
         \<and> residual s solution (build_rhs s) \<le> 1 / 1000000))
   \<and> (solve (solver s) (build_rhs s) = Some solution
        \<and> length solution \<noteq> length (free s) + 3 * length (vertices s) \<longrightarrow>
      SolveOneIteration solve polar s = Inl (SolutionDimensionMismatch, s))
   \<and> (solve (solver s) (build_rhs s) = Some solution
        \<and> length solution = length (free s) + 3 * length (vertices s)
        \<and> residual s solution (build_rhs s) > 1 / 1000000 \<longrightarrow>
      SolveOneIteration solve polar s = Inl (LinearSolverWrong, s))"
proof (intro conjI impI)
  assume "SolveOneIteration solve polar s = Inr s'"
  then obtain s1 where "linear_solve_step solve s = Inr s1"
    by (auto simp add: SolveOneIteration_Inr)
  from linear_solve_step_Inr [OF this]
  show "\<exists>solution. solve (solver s) (build_rhs s) = Some solution
         \<and> length solution = length (free s) + 3 * length (vertices s)
         \<and> residual s solution (build_rhs s) \<le> 1 / 1000000"
    by (auto simp add: kMatrixDiffThreshold_def)
next
  assume "solve (solver s) (build_rhs s) = Some solution
        \<and> length solution \<noteq> length (free s) + 3 * length (vertices s)"
  then show "SolveOneIteration solve polar s = Inl (SolutionDimensionMismatch, s)"
    by (simp add: SolveOneIteration_def linear_solve_step_def Let_def)
next
  assume "solve (solver s) (build_rhs s) = Some solution
        \<and> length solution = length (free s) + 3 * length (vertices s)
        \<and> residual s solution (build_rhs s) > 1 / 1000000"
  then show "SolveOneIteration solve polar s = Inl (LinearSolverWrong, s)"
    by (simp add: SolveOneIteration_def linear_solve_step_def Let_def kMatrixDiffThreshold_def)
qed

lemma build_rhs_boundary: "build_rhs boundary_state = [Vec3 1 0 0, Vec3 0 1 0, Vec3 0 0 1]"
  by (simp add: build_rhs_def rhs_rotation_def Let_def boundary_state_def set_block_def
      numeral_3_eq_3 linalg_defs)

lemma coeff_M_boundary:
  "coeff (M boundary_state) i j = (if i = j \<and> i < 3 then 1 else 0)"
  by (auto simp add: boundary_state_def coeff_def)

lemma residual_boundary:
  "residual boundary_state boundary_solution (build_rhs boundary_state) = 1 / 1000000"
  "residual boundary_state [Vec3 2 0 0, Vec3 0 1 0, Vec3 0 0 1] (build_rhs boundary_state) = 1"
  by (simp_all add: residual_def build_rhs_boundary sparse_times_dense_def coeff_M_boundary
      dense_squaredNorm_def boundary_solution_def upt_rec [of 0] upt_rec [of 1] upt_rec [of 2]
      numeral_3_eq_3 linalg_defs)
     (simp_all add: boundary_state_def linalg_defs)

text \<open>
  Claim C8, as it is stated, fails on the boundary: the check lets a squared residual of
  exactly \<open>1e-6\<close> pass, so a completed iteration does not imply a residual strictly
  below the threshold.
\<close>

theorem SolveOneIteration_residual_boundary:
  "boundary_solve (solver boundary_state) (build_rhs boundary_state) = Some boundary_solution
   \<and> \<not> isl (SolveOneIteration boundary_solve id boundary_state)
   \<and> \<not> residual boundary_state boundary_solution (build_rhs boundary_state) < 1 / 1000000"
  by (simp add: SolveOneIteration_def linear_solve_step_def Let_def boundary_solve_def
      residual_boundary kMatrixDiffThreshold_def)
     (simp add: boundary_state_def boundary_solution_def)

theorem SolveOneIteration_residual_check_witness:
  "SolveOneIteration boundary_solve id boundary_state
     = Inr (projr (SolveOneIteration boundary_solve id boundary_state))
   \<and> residual boundary_state boundary_solution (build_rhs boundary_state) \<le> 1 / 1000000
   \<and> short_solve (solver boundary_state) (build_rhs boundary_state) = Some [Vec3 1 0 0, Vec3 0 1 0]
   \<and> length [Vec3 1 0 0, Vec3 0 1 0]
        \<noteq> length (free boundary_state) + 3 * length (vertices boundary_state)
   \<and> SolveOneIteration short_solve id boundary_state = Inl (SolutionDimensionMismatch, boundary_state)
   \<and> far_solve (solver boundary_state) (build_rhs boundary_state)
        = Some [Vec3 2 0 0, Vec3 0 1 0, Vec3 0 0 1]
   \<and> residual boundary_state [Vec3 2 0 0, Vec3 0 1 0, Vec3 0 0 1] (build_rhs boundary_state)
        > 1 / 1000000
   \<and> SolveOneIteration far_solve id boundary_state = Inl (LinearSolverWrong, boundary_state)"
proof -
  have c: "\<not> isl (SolveOneIteration boundary_solve id boundary_state)"
    by (simp add: SolveOneIteration_def linear_solve_step_def Let_def boundary_solve_def
        residual_boundary kMatrixDiffThreshold_def)
       (simp add: boundary_state_def boundary_solution_def)
  then have r: "SolveOneIteration boundary_solve id boundary_state
     = Inr (projr (SolveOneIteration boundary_solve id boundary_state))"
    by simp
  have n: "length (free boundary_state) + 3 * length (vertices boundary_state) = 3"
    by (simp add: boundary_state_def)
  show ?thesis
    using r n residual_boundary(2)
      SolveOneIteration_residual_check [of boundary_solve id boundary_state
        "projr (SolveOneIteration boundary_solve id boundary_state)" boundary_solution]
      SolveOneIteration_residual_check [of short_solve id boundary_state
        boundary_state "[Vec3 1 0 0, Vec3 0 1 0]"]
      SolveOneIteration_residual_check [of far_solve id boundary_state
        boundary_state "[Vec3 2 0 0, Vec3 0 1 0, Vec3 0 0 1]"]
    by (simp add: boundary_solve_def short_solve_def far_solve_def)
qed

section \<open>The steps of SolveOneIteration\<close>





lemma length_fold_update:
  "length (fold (\<lambda>i ys. ys[i := h i (ys ! i)]) is xs) = length xs"
  by (induction "is" arbitrary: xs) simp_all

lemma nth_fold_update:
  "distinct is \<Longrightarrow> v < length xs \<Longrightarrow>
   fold (\<lambda>i ys. ys[i := h i (ys ! i)]) is xs ! v = (if v \<in> set is then h v (xs ! v) else xs ! v)"
proof (induction "is" arbitrary: xs)
  case Nil
  then show ?case by simp
next
  case (Cons i "is")
  then show ?case by (cases "v = i") simp_all
qed

lemma nth_fold_update_upt:
  "v < n \<Longrightarrow> n \<le> length xs \<Longrightarrow>
   fold (\<lambda>i ys. ys[i := h i (ys ! i)]) [0..<n] xs ! v = h v (xs ! v)"
  by (simp add: nth_fold_update)







lemma svd_solve_step_nth:
  assumes "v < length (vertices s)" "length (S s) = length (vertices s)"
  shows "S (svd_solve_step polar s) ! v = polar (rotations s ! v + T s ! v)"
proof -
  have "fold (\<lambda>i ss. ss[i := polar (rotations s ! i + T s ! i)]) [0..<length (vertices s)] (S s) ! v
      = polar (rotations s ! v + T s ! v)"
    using assms
    by (simp add: nth_fold_update_upt [where h = "\<lambda>i _. polar (rotations s ! i + T s ! i)"])
  then show ?thesis by (simp add: svd_solve_step_def Let_def)
qed

lemma update_T_step_nth:
  assumes "v < length (vertices s)" "length (T s) = length (vertices s)"
  shows "T (update_T_step s) ! v = T s ! v + (rotations s ! v - S s ! v)"
proof -
  have "fold (\<lambda>i ts. ts[i := ts ! i + (rotations s ! i - S s ! i)]) [0..<length (vertices s)] (T s) ! v
      = T s ! v + (rotations s ! v - S s ! v)"
    using assms
    by (simp add: nth_fold_update_upt [where h = "\<lambda>i t. t + (rotations s ! i - S s ! i)"])
  then show ?thesis by (simp add: update_T_step_def)
qed

lemma svd_update_T_fields:
  assumes "length (S s1) = length (vertices s1)" "length (T s1) = length (vertices s1)"
    and "v < length (vertices s1)"
  shows "rotations (update_T_step (svd_solve_step polar s1)) = rotations s1"
    and "vertices_updated (update_T_step (svd_solve_step polar s1)) = vertices_updated s1"
    and "S (update_T_step (svd_solve_step polar s1)) ! v = polar (rotations s1 ! v + T s1 ! v)"
    and "T (update_T_step (svd_solve_step polar s1)) ! v
          = T s1 ! v + (rotations s1 ! v - polar (rotations s1 ! v + T s1 ! v))"
proof -
  let ?s2 = "svd_solve_step polar s1"
  have S2: "S ?s2 ! v = polar (rotations s1 ! v + T s1 ! v)"
    using assms by (simp add: svd_solve_step_nth)
  have same: "vertices ?s2 = vertices s1" "T ?s2 = T s1" "rotations ?s2 = rotations s1"
    by (simp_all add: svd_solve_step_def)
  show "rotations (update_T_step ?s2) = rotations s1"
    "vertices_updated (update_T_step ?s2) = vertices_updated s1"
    by (simp_all add: update_T_step_def svd_solve_step_def)
  show "S (update_T_step ?s2) ! v = polar (rotations s1 ! v + T s1 ! v)"
    using S2 by (simp add: update_T_step_def)
  have "T (update_T_step ?s2) ! v = T ?s2 ! v + (rotations ?s2 ! v - S ?s2 ! v)"
    using assms by (intro update_T_step_nth) (simp_all add: same)
  then show "T (update_T_step ?s2) ! v
          = T s1 ! v + (rotations s1 ! v - polar (rotations s1 ! v + T s1 ! v))"
    by (simp only: S2 same)
qed








section \<open>The energy around the SVD step\<close>

lemma msquaredNorm_nonneg: "0 \<le> msquaredNorm A"
  by (simp add: msquaredNorm_def squaredNorm_def dot_def)

lemma msquaredNorm_residual: "msquaredNorm (R' - Q + T') = msquaredNorm (Q - (R' + T'))"
  by (simp add: msquaredNorm_def squaredNorm_def dot_def minus_mat3_def plus_mat3_def
      minus_vec3_def plus_vec3_def algebra_simps)

lemma msquaredNorm_0: "msquaredNorm 0 = 0"
  by (simp add: msquaredNorm_def squaredNorm_def dot_def zero_mat3_def zero_vec3_def)

lemma IsSO3_proper_rotation: "proper_rotation Q \<Longrightarrow> IsSO3 Q"
  by (simp add: proper_rotation_def IsSO3_def Let_def kMatrixDiffThreshold_def msquaredNorm_0)

lemma ComputeSVDSolveEnergy_finite:
  assumes "\<forall>v < length (vertices s). proper_rotation (S s ! v)"
  shows "ComputeSVDSolveEnergy s
     = Finite ((\<Sum>v<length (vertices s). msquaredNorm (S s ! v - (rotations s ! v + T s ! v)))
               * (rho s / 2))"
proof -
  have "list_all (\<lambda>v. IsSO3 (S s ! v)) [0..<length (vertices s)]"
    using assms by (simp add: list_all_iff IsSO3_proper_rotation)
  then show ?thesis
    by (simp add: ComputeSVDSolveEnergy_def Let_def fold_plus_sum_list sum_list_upt_sum
        msquaredNorm_residual)
qed

text \<open>
  The states that the iteration reaches have proper rotations in \<open>S\<close>: SolvePreprocess
  sets them to the identity, the linear solve leaves them alone, and the SVD step
  replaces them by what the closest-rotation kernel returns.
\<close>

lemma SolvePreprocess_S_proper:
  assumes "SolvePreprocess s fv = Inr s'" "v < length (vertices s')"
  shows "proper_rotation (S s' ! v)"
proof -
  have "proper_rotation Identity"
    by (simp add: proper_rotation_def linalg_defs)
  moreover have "S s' = replicate (length (vertices s')) Identity"
    using assms(1) by (auto simp add: SolvePreprocess_def Let_def split: if_splits)
  ultimately show ?thesis using assms(2) by simp
qed

lemma linear_solve_step_S: "linear_solve_step solve s = Inr s1 \<Longrightarrow> S s1 = S s"
  by (auto dest: linear_solve_step_Inr)

lemma SolveOneIteration_S_proper:
  assumes wf: "wf_iteration s" and run: "SolveOneIteration solve polar s = Inr s'"
    and v: "v < length (vertices s)"
    and kernel: "\<And>X. proper_rotation (polar X)"
  shows "proper_rotation (S s' ! v)"
proof -
  from run obtain s1 where s1: "linear_solve_step solve s = Inr s1"
    and s': "s' = update_T_step (svd_solve_step polar s1)"
    by (auto simp add: SolveOneIteration_Inr)
  from linear_solve_step_Inr [OF s1] have same: "S s1 = S s" "T s1 = T s" "vertices s1 = vertices s"
    by auto
  have "S s' ! v = polar (rotations s1 ! v + T s1 ! v)"
    unfolding s' using wf v by (intro svd_update_T_fields(3)) (simp_all add: same wf_iteration_def)
  then show ?thesis by (simp add: kernel)
qed

lemma length_fold_list_update:
  "length (fold (\<lambda>i ys. ys[i := g i ys]) is xs) = length xs"
  by (induction "is" arbitrary: xs) simp_all

lemma SolveOneIteration_wf:
  assumes wf: "wf_iteration s" and run: "SolveOneIteration solve polar s = Inr s'"
  shows "wf_iteration s'"
proof -
  from run obtain s1 where s1: "linear_solve_step solve s = Inr s1"
    and s': "s' = update_T_step (svd_solve_step polar s1)"
    by (auto simp add: SolveOneIteration_Inr)
  from linear_solve_step_Inr [OF s1] obtain solution where
    "s1 = s\<lparr>vertices_updated :=
               assign_rows (free s) solution [0..<length (free s)] (vertices_updated s),
             rotations :=
               fold (\<lambda>v rs. rs[v := transpose3 (get_block solution (length (free s) + 3 * v))])
                 [0..<length (vertices s)] (rotations s)\<rparr>"
    by blast
  then show ?thesis
    using wf
    by (simp add: s' wf_iteration_def update_T_step_def svd_solve_step_def Let_def
        length_assign_rows length_fold_list_update)
qed

text \<open>
  The SVD step on a state whose \<open>S v\<close> are proper rotations: when rho is not negative
  and the kernel returns the closest proper rotation to each \<open>R v + T v\<close>, both
  evaluations of the augmented energy are finite and the one after the step is at most
  the one before it.
\<close>

lemma svd_step_energy_le:
  assumes rho: "0 \<le> rho s"
    and len: "length (S s) = length (vertices s)"
    and old: "\<forall>v < length (vertices s). proper_rotation (S s ! v)"
    and polar: "\<forall>v < length (vertices s).
        closest_rotation (polar_svd3x3 (rotations s ! v + T s ! v)) (rotations s ! v + T s ! v)"
  shows "\<exists>energy_before_svd energy_after_svd.
      ComputeSVDSolveEnergy s = Finite energy_before_svd
    \<and> ComputeSVDSolveEnergy (svd_solve_step polar_svd3x3 s) = Finite energy_after_svd
    \<and> energy_after_svd \<le> energy_before_svd
    \<and> energy_after_svd \<le> energy_before_svd + 2 / 100
    \<and> \<not> svd_energy_check_fails (Finite energy_before_svd) (Finite energy_after_svd)"
proof -
  let ?n = "length (vertices s)"
  let ?s2 = "svd_solve_step polar_svd3x3 s"
  let ?X = "\<lambda>v. rotations s ! v + T s ! v"
  have same: "vertices ?s2 = vertices s" "rotations ?s2 = rotations s" "T ?s2 = T s"
    "rho ?s2 = rho s"
    by (simp_all add: svd_solve_step_def)
  have S2: "S ?s2 ! v = polar_svd3x3 (?X v)" if "v < ?n" for v
    using that len by (simp add: svd_solve_step_nth)
  have new: "\<forall>v < length (vertices ?s2). proper_rotation (S ?s2 ! v)"
    using polar by (simp add: same S2 closest_rotation_def)
  let ?before = "(\<Sum>v<?n. msquaredNorm (S s ! v - ?X v)) * (rho s / 2)"
  let ?after = "(\<Sum>v<?n. msquaredNorm (polar_svd3x3 (?X v) - ?X v)) * (rho s / 2)"
  have b: "ComputeSVDSolveEnergy s = Finite ?before"
    by (rule ComputeSVDSolveEnergy_finite [OF old])
  have "ComputeSVDSolveEnergy ?s2
     = Finite ((\<Sum>v<?n. msquaredNorm (S ?s2 ! v - ?X v)) * (rho s / 2))"
    using ComputeSVDSolveEnergy_finite [OF new] by (simp only: same)
  then have a: "ComputeSVDSolveEnergy ?s2 = Finite ?after"
    by (simp add: S2)
  have "msquaredNorm (polar_svd3x3 (?X v) - ?X v) \<le> msquaredNorm (S s ! v - ?X v)"
    if "v < ?n" for v
    using that polar old unfolding closest_rotation_def by blast
  then have "(\<Sum>v<?n. msquaredNorm (polar_svd3x3 (?X v) - ?X v))
      \<le> (\<Sum>v<?n. msquaredNorm (S s ! v - ?X v))"
    by (intro sum_mono) simp
  then have le: "?after \<le> ?before"
    using rho by (intro mult_right_mono) simp_all
  then have c: "\<not> svd_energy_check_fails (Finite ?before) (Finite ?after)"
    by (simp add: svd_energy_check_fails_def kEnergyTolerance_def)
  from le have le2: "?after \<le> ?before + 2 / 100" by simp
  show ?thesis
    using a b le le2 c by (intro exI [of _ ?before] exI [of _ ?after] conjI)
qed

lemma proper_rotation_examples: "proper_rotation Identity" "proper_rotation quarter_turn"
  by (simp_all add: proper_rotation_def quarter_turn_def linalg_defs)

lemma closest_rotation_Identity: "closest_rotation Identity Identity"
  using msquaredNorm_nonneg
  by (simp add: closest_rotation_def proper_rotation_examples)
     (simp add: msquaredNorm_def squaredNorm_def dot_def zero_mat3_def zero_vec3_def)

lemma Zero_eq_0: "Zero = 0"
  by (simp add: Zero_def zero_mat3_def zero_vec3_def)

lemma IsSO3_Identity: "IsSO3 Identity"
  by (simp add: IsSO3_def Let_def kMatrixDiffThreshold_def linalg_defs)

lemma Identity_plus_Zero: "Identity + Zero = Identity"
  by (simp add: linalg_defs)

text \<open>On the turned state the step brings the energy from 2 down to 0.\<close>

lemma svd_step_energy_example:
  "0 \<le> rho turned_state
   \<and> length (S turned_state) = length (vertices turned_state)
   \<and> length (vertices turned_state) = 1
   \<and> proper_rotation (S turned_state ! 0)
   \<and> closest_rotation (id (rotations turned_state ! 0 + T turned_state ! 0))
        (rotations turned_state ! 0 + T turned_state ! 0)
   \<and> ComputeSVDSolveEnergy turned_state = Finite 2
   \<and> ComputeSVDSolveEnergy (svd_solve_step id turned_state) = Finite 0"
proof -
  have f: "rho turned_state = 1" "length (S turned_state) = length (vertices turned_state)"
    "length (vertices turned_state) = 1" "S turned_state ! 0 = quarter_turn"
    "rotations turned_state ! 0 + T turned_state ! 0 = Identity"
    by (simp_all add: turned_state_def boundary_state_def Identity_plus_Zero)
  have h: "\<forall>v < length (vertices turned_state). proper_rotation (S turned_state ! v)"
    "\<forall>v < length (vertices turned_state).
        closest_rotation (id (rotations turned_state ! v + T turned_state ! v))
          (rotations turned_state ! v + T turned_state ! v)"
    using f by (simp_all add: proper_rotation_examples closest_rotation_Identity)
  have b: "ComputeSVDSolveEnergy turned_state = Finite 2"
    using f(4,5)
    by (simp add: ComputeSVDSolveEnergy_finite [OF h(1)] f(1,3) quarter_turn_def linalg_defs)
  obtain e1 e2 where "ComputeSVDSolveEnergy turned_state = Finite e1"
    "ComputeSVDSolveEnergy (svd_solve_step id turned_state) = Finite e2" "e2 \<le> e1"
    using svd_step_energy_le [of turned_state id] f h by auto
  moreover have "ComputeSVDSolveEnergy (svd_solve_step id turned_state) = Finite 0"
    by (simp add: ComputeSVDSolveEnergy_def svd_solve_step_def Let_def turned_state_def
        boundary_state_def Zero_eq_0 IsSO3_Identity msquaredNorm_0)
  ultimately show ?thesis
    using f b by (simp add: proper_rotation_examples closest_rotation_Identity)
qed






end
